theory Spec2Isabelle
  imports Complex_Main "HOL-Library.Multiset"
begin

section \<open>Errors (errors.go)\<close>

text \<open>
  The four error structs of errors.go, together with the two other error values the
  client returns: errors built with fmt.Errorf (message and wrapped cause) and the
  error of a cancelled context. \<open>NewAPIError\<close> takes its arguments in the order
  status code, endpoint, message, cause.
\<close>

datatype error =
    ValidationError string string
  | AuthenticationError string "error option"
  | APIError int string string "error option"
  | NotFoundError string string
  | Errorf string "error option"
  | ContextError

fun IsValidationError :: "error \<Rightarrow> bool" where
  "IsValidationError (ValidationError f m) = True"
| "IsValidationError e = False"

fun IsAuthenticationError :: "error \<Rightarrow> bool" where
  "IsAuthenticationError (AuthenticationError m c) = True"
| "IsAuthenticationError e = False"

fun IsAPIError :: "error \<Rightarrow> bool" where
  "IsAPIError (APIError s e m c) = True"
| "IsAPIError e = False"

section \<open>Strings\<close>

text \<open>
  A Go string is a sequence of bytes, as \<^typ>\<open>string\<close> is. The functions of package
  strings that the client uses on fixed one-byte or ASCII arguments are written out.
\<close>

text \<open>strings.Split(s, sep) for a separator of one byte.\<close>

fun Split :: "string \<Rightarrow> char \<Rightarrow> string list" where
  "Split [] sep = [[]]"
| "Split (c # cs) sep =
     (if c = sep then [] # Split cs sep
      else (case Split cs sep of [] \<Rightarrow> [[c]] | p # ps \<Rightarrow> (c # p) # ps))"

text \<open>
  strings.TrimSpace on the ASCII white space characters (tab, line feed, vertical tab,
  form feed, carriage return, space).
\<close>

definition isSpace :: "char \<Rightarrow> bool" where
  "isSpace c = (c \<in> set [CHR 0x09, CHR 0x0A, CHR 0x0B, CHR 0x0C, CHR 0x0D, CHR 0x20])"

definition TrimSpace :: "string \<Rightarrow> string" where
  "TrimSpace s = rev (dropWhile isSpace (rev (dropWhile isSpace s)))"

text \<open>strings.Contains(s, substr).\<close>

fun HasPrefix :: "string \<Rightarrow> string \<Rightarrow> bool" where
  "HasPrefix s [] = True"
| "HasPrefix [] (p # ps) = False"
| "HasPrefix (c # cs) (p # ps) = (c = p \<and> HasPrefix cs ps)"

fun Contains :: "string \<Rightarrow> string \<Rightarrow> bool" where
  "Contains [] sub = (sub = [])"
| "Contains (c # cs) sub = (HasPrefix (c # cs) sub \<or> Contains cs sub)"

text \<open>strings.TrimSuffix(s, suffix) and strings.ReplaceAll(s, old, new) for one-byte old and new.\<close>

definition HasSuffix :: "string \<Rightarrow> string \<Rightarrow> bool" where
  "HasSuffix s suffix = HasPrefix (rev s) (rev suffix)"

definition TrimSuffix :: "string \<Rightarrow> string \<Rightarrow> string" where
  "TrimSuffix s suffix =
     (if HasSuffix s suffix then take (length s - length suffix) s else s)"

definition ReplaceAll :: "string \<Rightarrow> char \<Rightarrow> char \<Rightarrow> string" where
  "ReplaceAll s old new = map (\<lambda>c. if c = old then new else c) s"

section \<open>Validation of a time slot (ValidateTimeSlot)\<close>

definition isDigit :: "char \<Rightarrow> bool" where
  "isDigit c = (c \<in> set ''0123456789'')"

text \<open>
  timeFormatRegex is \<^verbatim>\<open>^([01]\d|2[0-3]):([0-5]\d)$\<close>: exactly five bytes, an hour
  00 to 23, a colon, a minute 00 to 59.
\<close>

fun timeFormatRegex :: "string \<Rightarrow> bool" where
  "timeFormatRegex [h1, h2, c, m1, m2] =
     (((h1 \<in> set ''01'' \<and> isDigit h2) \<or> (h1 = CHR ''2'' \<and> h2 \<in> set ''0123''))
      \<and> c = CHR '':'' \<and> m1 \<in> set ''012345'' \<and> isDigit m2)"
| "timeFormatRegex s = False"

definition digitVal :: "char \<Rightarrow> nat" where
  "digitVal c = of_char c - 48"

text \<open>
  time.Parse("15:04", s) gives an instant of the first day of year 0; an instant is
  counted here in minutes from the start of that day. When parsing fails Go returns the
  zero Time, the first instant of year 1, which is 366 days later; ValidateTimeSlot
  drops the error and compares the instants.
\<close>

fun time_Parse :: "string \<Rightarrow> nat option" where
  "time_Parse [h1, h2, c, m1, m2] =
     (if isDigit h1 \<and> isDigit h2 \<and> c = CHR '':'' \<and> isDigit m1 \<and> isDigit m2
         \<and> digitVal h1 * 10 + digitVal h2 < 24 \<and> digitVal m1 * 10 + digitVal m2 < 60
      then Some ((digitVal h1 * 10 + digitVal h2) * 60 + (digitVal m1 * 10 + digitVal m2))
      else None)"
| "time_Parse s = None"

definition zeroTime :: nat where
  "zeroTime = 366 * 24 * 60"

definition parsedInstant :: "string \<Rightarrow> nat" where
  "parsedInstant s = (case time_Parse s of Some t \<Rightarrow> t | None \<Rightarrow> zeroTime)"

definition ValidateTimeSlot :: "string \<Rightarrow> error + (string \<times> string)" where
  "ValidateTimeSlot timeSlot =
     (if timeSlot = [] then Inl (ValidationError ''time_slot'' ''cannot be empty'')
      else (case Split timeSlot (CHR ''-'') of
        [p0, p1] \<Rightarrow>
          (let startTime = TrimSpace p0; endTime = TrimSpace p1 in
           if \<not> timeFormatRegex startTime
             then Inl (ValidationError ''time_slot'' (''invalid start time: '' @ startTime))
           else if \<not> timeFormatRegex endTime
             then Inl (ValidationError ''time_slot'' (''invalid end time: '' @ endTime))
           else if \<not> (parsedInstant endTime > parsedInstant startTime)
             then Inl (ValidationError ''time_slot'' ''end time must be after start time'')
           else Inr (startTime, endTime))
      | parts \<Rightarrow>
          Inl (ValidationError ''time_slot'' ''invalid format (expected: HH:MM-HH:MM)'')))"

section \<open>Data\<close>

text \<open>
  A float64 is modelled by a real number: the rounding of float64 arithmetic, the
  infinities and NaN are outside the model. The Go types int and int64 are modelled by
  \<^typ>\<open>int\<close>; the client only compares them, copies them and divides by 1000.
\<close>

record Image =
  URL :: string

record Product =
  Code :: string
  Name :: string
  PriceValue :: real
  Price :: string
  ComparePrice :: string
  ComparePriceUnit :: string
  DisplayVolume :: string
  Manufacturer :: string
  Labels :: "string list"
  Online :: bool
  OutOfStock :: bool
  SavingsAmount :: "real option"
  Image :: Image

record SearchPreferences =
  PriceSensitivity :: string
  MaxPricePerUnit :: real
  RequiredLabels :: "string list"
  PreferredLabels :: "string list"
  SortBy :: string

record TimeSlot =
  SlotID :: string
  Date :: string
  StartTime :: string
  EndTime :: string
  Fee :: real
  Available :: bool
  EarliestDateTime :: int
  LatestDateTime :: int
  RouteID :: int
  ResourceKey :: string
  ScheduleKey :: string
  PrecedingStopId :: int
  StopNumber :: int
  Profitability :: real

text \<open>
  The anonymous struct that GetAvailableTimeSlots decodes the response into. Its fields
  carry the prefix \<open>js\<close> (the entry of the slots array) or \<open>tms\<close> (the nested
  tmsDeliveryWindowReference), since a TimeSlot has fields of the same names.
\<close>

record TmsDeliveryWindowReference =
  tmsEarliestDateTime :: int
  tmsLatestDateTime :: int
  tmsRouteID :: int
  tmsResourceKey :: string
  tmsScheduleKey :: string
  tmsPrecedingStopId :: int
  tmsStopNumber :: int
  tmsProfitability :: real

record slotEntry =
  jsCode :: string
  jsStartTime :: int
  jsEndTime :: int
  jsFormattedTime :: string
  jsDeliveryCostValue :: real
  jsAvailable :: bool
  jsTmsDeliveryWindowReference :: TmsDeliveryWindowReference

record slotsResult =
  Isocode :: string
  Slots :: "slotEntry list"

text \<open>The anonymous struct \<open>reqData\<close> that SelectTimeSlot marshals, fields with the prefix \<open>req\<close>.\<close>

record reqData =
  reqEarliestDateTime :: int
  reqLatestDateTime :: int
  reqRouteID :: int
  reqResourceKey :: string
  reqScheduleKey :: string
  reqPrecedingStopId :: int
  reqStopNumber :: int
  reqProfitability :: real

record LoginRequest =
  Username :: string
  Password :: string

text \<open>
  The values json.Unmarshal stores in an \<open>any\<close>: nil, bool, float64, string, []any and
  map[string]any. A map is written as the list of its entries, looked up by key.
\<close>

datatype any =
    ANil
  | ABool bool
  | AFloat64 real
  | AString string
  | ASlice "any list"
  | AMap "(string \<times> any) list"

record FlexiblePrice =
  "value" :: any

section \<open>The network\<close>

text \<open>
  A request as the server sees it: method, URL, body and the X-CSRF-TOKEN header
  (\<open>None\<close> when the header is not set). The other headers createRequest sets are the same
  for every request and are left out. A response has a status code and a body, which is
  a sequence of bytes, or fails while it is read.
\<close>

record Request =
  Method :: string
  Url :: string
  Body :: string
  CSRF :: "string option"

datatype content = ReadError | Bytes string

datatype Response = Response (StatusCode: int) (RespBody: content)

datatype reply = TransportError | Reply Response

text \<open>
  The world outside the client: the server, which answers the last request of a history
  of requests (so that its answer may depend on everything it was sent before, cookies
  included), and the requests sent so far. \<open>logins\<close> counts the calls of Login; it is
  not a variable of the program.
\<close>

record world =
  server :: "Request list \<Rightarrow> reply"
  sent :: "Request list"
  logins :: nat

definition send :: "world \<Rightarrow> Request \<Rightarrow> reply \<times> world" where
  "send w req = (let h = sent w @ [req] in (server w h, w\<lparr>sent := h\<rparr>))"

text \<open>
  A context is nil or tells, at the moment it is asked, whether it is done.
  An io.Reader gives bytes or fails.
\<close>

type_synonym Context = "(world \<Rightarrow> bool) option"

datatype Reader = BytesReader string | ErrReader

text \<open>The fields of Client; the cookie jar of its http.Client is part of the world.\<close>

record Client =
  baseURL :: string
  csrfToken :: string
  username :: string
  password :: string
  authAttempts :: int

section \<open>Go library functions used by the client\<close>

text \<open>
  The functions of the Go standard library that do more than move bytes are not code of
  the client and are taken as parameters, collected in one record that the client's
  functions receive:
  \<^item> \<open>ParseFloat\<close> is strconv.ParseFloat(s, 64) with its two results, the number and the
    error (\<open>None\<close> for nil);
  \<^item> \<open>ToLower\<close> is strings.ToLower;
  \<^item> \<open>Slice\<close> is sort.Slice on a slice of products, given the order on elements that the
    less function computes from the two indexed elements;
  \<^item> \<open>NewRequest\<close> is the error of http.NewRequest for a method and a URL;
  \<^item> \<open>UnmarshalAny\<close>, \<open>UnmarshalString\<close>, \<open>UnmarshalToken\<close>, \<open>UnmarshalSearch\<close> and
    \<open>DecodeSlots\<close> are json.Unmarshal (or a json.Decoder) into an \<open>any\<close>, a string, the struct
    with the field \<open>token\<close>, the struct with the field \<open>results\<close> and the struct of the
    slots listing;
  \<^item> \<open>MarshalLogin\<close> and \<open>MarshalReqData\<close> are json.Marshal of a LoginRequest and of the
    struct \<open>reqData\<close>;
  \<^item> \<open>Encode\<close> is url.Values.Encode on the parameters set, \<open>QueryEscape\<close> is
    url.QueryEscape, \<open>Itoa\<close> is fmt.Sprintf("%d", n);
  \<^item> \<open>FormatDate\<close> and \<open>FormatClock\<close> are time.Unix(sec, 0).Format with the layouts
    "2006-01-02" and "15:04".
\<close>

record lib =
  ParseFloat :: "string \<Rightarrow> real \<times> error option"
  ToLower :: "string \<Rightarrow> string"
  Slice :: "(Product \<Rightarrow> Product \<Rightarrow> bool) \<Rightarrow> Product list \<Rightarrow> Product list"
  NewRequest :: "string \<Rightarrow> string \<Rightarrow> error option"
  UnmarshalAny :: "string \<Rightarrow> error + any"
  UnmarshalString :: "string \<Rightarrow> error + string"
  UnmarshalToken :: "string \<Rightarrow> error + string"
  UnmarshalSearch :: "string \<Rightarrow> error + Product list"
  DecodeSlots :: "string \<Rightarrow> error + slotsResult"
  MarshalLogin :: "LoginRequest \<Rightarrow> error + string"
  MarshalReqData :: "reqData \<Rightarrow> error + string"
  Encode :: "(string \<times> string) list \<Rightarrow> string"
  QueryEscape :: "string \<Rightarrow> string"
  Itoa :: "int \<Rightarrow> string"
  FormatDate :: "int \<Rightarrow> string"
  FormatClock :: "int \<Rightarrow> string"

section \<open>The ranking engine (filterProducts, sortProducts, calculateValueScore)\<close>

definition parseComparePriceToFloat :: "lib \<Rightarrow> string \<Rightarrow> real" where
  "parseComparePriceToFloat L priceStr =
     (let priceStr = TrimSuffix priceStr '' kr'';
          priceStr = ReplaceAll priceStr (CHR '','') (CHR ''.'');
          (price, err) = ParseFloat L priceStr
      in price)"

text \<open>
  The two inner loops of filterProducts: \<open>found\<close> searches the lower-cased labels of a
  product for one that contains the required label and stops at the first;
  \<open>hasAllRequired\<close> stops at the first required label that is not found.
\<close>

fun found :: "string \<Rightarrow> string list \<Rightarrow> bool" where
  "found reqLabel [] = False"
| "found reqLabel (label # labels) =
     (if Contains label reqLabel then True else found reqLabel labels)"

fun hasAllRequired :: "string list \<Rightarrow> string list \<Rightarrow> bool" where
  "hasAllRequired [] productLabelsLower = True"
| "hasAllRequired (reqLabel # reqs) productLabelsLower =
     (if \<not> found reqLabel productLabelsLower then False
      else hasAllRequired reqs productLabelsLower)"

text \<open>The loop over the products, with the slice \<open>filtered\<close> it appends to.\<close>

fun filterLoop ::
  "lib \<Rightarrow> SearchPreferences \<Rightarrow> string list \<Rightarrow> Product list \<Rightarrow> Product list \<Rightarrow> Product list"
where
  "filterLoop L prefs lowercaseRequired [] filtered = filtered"
| "filterLoop L prefs lowercaseRequired (p # ps) filtered =
     (if MaxPricePerUnit prefs > 0
         \<and> parseComparePriceToFloat L (ComparePrice p) > MaxPricePerUnit prefs
      then filterLoop L prefs lowercaseRequired ps filtered
      else if length lowercaseRequired > 0
         \<and> \<not> hasAllRequired lowercaseRequired (map (ToLower L) (Labels p))
      then filterLoop L prefs lowercaseRequired ps filtered
      else filterLoop L prefs lowercaseRequired ps (filtered @ [p]))"

definition filterProducts :: "lib \<Rightarrow> Product list \<Rightarrow> SearchPreferences \<Rightarrow> Product list" where
  "filterProducts L products prefs =
     filterLoop L prefs (map (ToLower L) (RequiredLabels prefs)) products []"

text \<open>
  The quality labels of calculateValueScore; the third is "nyckelh\<aa>l", whose
  letter a with ring is the two bytes C3 A5 in UTF-8.
\<close>

definition qualityLabels :: "string list" where
  "qualityLabels =
     [''krav'', ''ekologisk'', ''nyckelh'' @ [CHR 0xC3, CHR 0xA5] @ ''l'', ''svensk'']"

text \<open>
  The inner loop over the quality labels, left at the first one the label contains, and
  the outer loop over the labels of the product, which adds to the score.
\<close>

fun qualityMatch :: "string \<Rightarrow> string list \<Rightarrow> bool" where
  "qualityMatch labelLower [] = False"
| "qualityMatch labelLower (quality # qs) =
     (if Contains labelLower quality then True else qualityMatch labelLower qs)"

fun labelLoop :: "lib \<Rightarrow> string list \<Rightarrow> real \<Rightarrow> real" where
  "labelLoop L [] score = score"
| "labelLoop L (label # labels) score =
     labelLoop L labels
       (if qualityMatch (ToLower L label) qualityLabels then score + 10 else score)"

definition calculateValueScore :: "lib \<Rightarrow> Product \<Rightarrow> real" where
  "calculateValueScore L p =
     (let score = 0;
          comparePrice = parseComparePriceToFloat L (ComparePrice p);
          score = (if comparePrice > 0 then score + 100 / comparePrice else score);
          score = labelLoop L (Labels p) score
      in (case SavingsAmount p of
            Some savings \<Rightarrow> if savings > 0 then score + savings * 0.5 else score
          | None \<Rightarrow> score))"

text \<open>The less function that sortProducts hands to sort.Slice, on two elements.\<close>

definition sortLess :: "lib \<Rightarrow> SearchPreferences \<Rightarrow> Product \<Rightarrow> Product \<Rightarrow> bool" where
  "sortLess L prefs p_i p_j =
     (if SortBy prefs = ''cheapest'' then
        parseComparePriceToFloat L (ComparePrice p_i) < parseComparePriceToFloat L (ComparePrice p_j)
      else if SortBy prefs = ''best_value'' then
        calculateValueScore L p_i > calculateValueScore L p_j
      else if SortBy prefs = ''highest_quality'' then
        (if length (Labels p_i) \<noteq> length (Labels p_j)
         then length (Labels p_i) > length (Labels p_j)
         else parseComparePriceToFloat L (ComparePrice p_i)
                < parseComparePriceToFloat L (ComparePrice p_j))
      else False)"

definition sortProducts :: "lib \<Rightarrow> Product list \<Rightarrow> SearchPreferences \<Rightarrow> Product list" where
  "sortProducts L products prefs = Slice L (sortLess L prefs) products"

section \<open>Cart prices (parsePrice)\<close>

lemma map_of_size_any:
  "map_of kvs k = Some v \<Longrightarrow> size v < Suc (size_list (size_prod (\<lambda>_. 0) size) kvs)"
  by (induction kvs) (auto split: if_splits)

function parsePrice :: "lib \<Rightarrow> any \<Rightarrow> real" where
  "parsePrice L (AFloat64 val) = val"
| "parsePrice L (AString val) =
     (if val = [] then 0
      else (case ParseFloat L val of
              (price, Some err) \<Rightarrow> 0
            | (price, None) \<Rightarrow> price))"
| "parsePrice L (AMap val) =
     (case map_of val ''value'' of
        Some valueField \<Rightarrow> parsePrice L valueField
      | None \<Rightarrow> 0)"
| "parsePrice L ANil = 0"
| "parsePrice L (ABool b) = 0"
| "parsePrice L (ASlice vs) = 0"
  by pat_completeness auto
termination
  by (relation "measure (\<lambda>(L, v). size v)") (auto dest: map_of_size_any)

text \<open>FlexiblePrice.UnmarshalJSON and FlexiblePrice.Value.\<close>

definition UnmarshalJSON :: "lib \<Rightarrow> FlexiblePrice \<Rightarrow> string \<Rightarrow> error + FlexiblePrice" where
  "UnmarshalJSON L fp data =
     (case UnmarshalAny L data of
        Inl err \<Rightarrow> Inl err
      | Inr v \<Rightarrow> Inr (fp\<lparr>value := v\<rparr>))"

definition Value :: "FlexiblePrice \<Rightarrow> any" where
  "Value fp = value fp"

section \<open>The session transport (DoRequest, Login, the CSRF token)\<close>

definition EndpointLogin :: string where "EndpointLogin = ''/login''"
definition EndpointCSRFToken :: string where "EndpointCSRFToken = ''/axfood/rest/csrf-token''"
definition EndpointSearch :: string where "EndpointSearch = ''/search''"
definition EndpointSlotHomeDelivery :: string where
  "EndpointSlotHomeDelivery = ''/axfood/rest/slot/homeDelivery''"
definition EndpointSlotInCart :: string where
  "EndpointSlotInCart = ''/axfood/rest/slot/slotInCart''"

definition MaxAuthRetryAttempts :: int where "MaxAuthRetryAttempts = 2"

text \<open>
  NewClient stores the arguments and sets the counter to 0 (the checks of the base URL
  are those of url.Parse and are not modelled: the client is taken as constructed).
\<close>

definition NewClient :: "string \<Rightarrow> string \<Rightarrow> string \<Rightarrow> Client" where
  "NewClient base user pass =
     \<lparr>baseURL = base, csrfToken = [], username = user, password = pass, authAttempts = 0\<rparr>"

text \<open>
  fetchCSRFTokenLocked: a GET of the token endpoint by http.Client.Get; the body is a
  JSON string or an object with the field \<open>token\<close>.
\<close>

definition fetchCSRFTokenLocked :: "lib \<Rightarrow> Client \<Rightarrow> world \<Rightarrow> (error + string) \<times> Client \<times> world" where
  "fetchCSRFTokenLocked L c w =
     (case send w \<lparr>Method = ''GET'', Url = baseURL c @ EndpointCSRFToken, Body = [], CSRF = None\<rparr> of
        (TransportError, w1) \<Rightarrow> (Inl (Errorf ''failed to fetch CSRF token'' None), c, w1)
      | (Reply resp, w1) \<Rightarrow>
          if StatusCode resp \<noteq> 200
          then (Inl (Errorf ''CSRF token request failed with status'' None), c, w1)
          else (case RespBody resp of
            ReadError \<Rightarrow> (Inl (Errorf ''failed to read CSRF token response'' None), c, w1)
          | Bytes body \<Rightarrow>
              (case (case UnmarshalString L body of
                       Inr token \<Rightarrow> Inr token
                     | Inl err1 \<Rightarrow>
                         (case UnmarshalToken L body of
                            Inl err \<Rightarrow> Inl (Errorf ''failed to parse CSRF token'' (Some err))
                          | Inr token \<Rightarrow> Inr token)) of
                 Inl err \<Rightarrow> (Inl err, c, w1)
               | Inr token \<Rightarrow>
                   if token = [] then (Inl (Errorf ''empty CSRF token'' None), c, w1)
                   else (Inr token, c\<lparr>csrfToken := token\<rparr>, w1))))"

text \<open>
  GetCSRFToken reads the cached token under the read lock, and under the write lock
  reads it again before it fetches; without other callers the two reads agree.
\<close>

definition GetCSRFToken :: "lib \<Rightarrow> Client \<Rightarrow> world \<Rightarrow> (error + string) \<times> Client \<times> world" where
  "GetCSRFToken L c w =
     (let token = csrfToken c in
      if token \<noteq> [] then (Inr token, c, w)
      else if csrfToken c \<noteq> [] then (Inr (csrfToken c), c, w)
      else fetchCSRFTokenLocked L c w)"

definition FetchCSRFToken :: "lib \<Rightarrow> Client \<Rightarrow> world \<Rightarrow> (error + string) \<times> Client \<times> world" where
  "FetchCSRFToken L c w = fetchCSRFTokenLocked L c w"

definition createRequest :: "lib \<Rightarrow> Client \<Rightarrow> string \<Rightarrow> string \<Rightarrow> string \<Rightarrow> error + Request" where
  "createRequest L c method path bodyBytes =
     (let reqURL = baseURL c @ path in
      case NewRequest L method reqURL of
        Some err \<Rightarrow> Inl (Errorf ''failed to create request'' (Some err))
      | None \<Rightarrow> Inr \<lparr>Method = method, Url = reqURL, Body = bodyBytes, CSRF = None\<rparr>)"

definition InitializeSession :: "Client \<Rightarrow> world \<Rightarrow> error option \<times> world" where
  "InitializeSession c w =
     (case send w \<lparr>Method = ''GET'', Url = baseURL c, Body = [], CSRF = None\<rparr> of
        (TransportError, w1) \<Rightarrow> (Some (Errorf ''failed to initialize session'' None), w1)
      | (Reply resp, w1) \<Rightarrow>
          if StatusCode resp \<noteq> 200 then (Some (Errorf ''unexpected status code'' None), w1)
          else (None, w1))"

definition ctxDone :: "Context \<Rightarrow> world \<Rightarrow> bool" where
  "ctxDone ctx w = (case ctx of None \<Rightarrow> False | Some isDone \<Rightarrow> isDone w)"

definition readAll :: "Reader option \<Rightarrow> error + string" where
  "readAll body =
     (case body of
        None \<Rightarrow> Inr []
      | Some ErrReader \<Rightarrow> Inl (Errorf ''failed to read request body'' None)
      | Some (BytesReader bodyBytes) \<Rightarrow> Inr bodyBytes)"

text \<open>
  DoRequest and Login call each other: DoRequest calls Login after the second
  unauthorized answer to a request that needs the token, and Login sends its request by
  DoRequest with \<open>needsCSRF\<close> false. Both return the client and the world as they leave
  them.
\<close>

function
  DoRequest :: "lib \<Rightarrow> Client \<Rightarrow> world \<Rightarrow> Context \<Rightarrow> string \<Rightarrow> string \<Rightarrow> Reader option \<Rightarrow> bool
      \<Rightarrow> (error + Response) \<times> Client \<times> world"
and
  Login :: "lib \<Rightarrow> Client \<Rightarrow> world \<Rightarrow> Context \<Rightarrow> string \<Rightarrow> string \<Rightarrow> error option \<times> Client \<times> world"
where
  "DoRequest L c w ctx method path body needsCSRF =
     (if ctxDone ctx w then (Inl ContextError, c, w)
      else case readAll body of
        Inl err \<Rightarrow> (Inl err, c, w)
      | Inr bodyBytes \<Rightarrow>
     (case createRequest L c method path bodyBytes of
        Inl err \<Rightarrow> (Inl err, c, w)
      | Inr req \<Rightarrow>
     (case (if needsCSRF
            then (case GetCSRFToken L c w of
                    (Inl err, c1, w1) \<Rightarrow> (Inl (Errorf ''failed to get CSRF token'' (Some err)), c1, w1)
                  | (Inr token, c1, w1) \<Rightarrow> (Inr (req\<lparr>CSRF := Some token\<rparr>), c1, w1))
            else (Inr req, c, w)) of
        (Inl err, c1, w1) \<Rightarrow> (Inl err, c1, w1)
      | (Inr req, c1, w1) \<Rightarrow>
     (case send w1 req of
        (TransportError, w2) \<Rightarrow> (Inl (Errorf ''request failed'' None), c1, w2)
      | (Reply resp, w2) \<Rightarrow>
     if StatusCode resp = 401 \<and> needsCSRF then
       (case FetchCSRFToken L c1 w2 of
          (Inl err, c2, w3) \<Rightarrow> (Inl (Errorf ''failed to refresh CSRF token'' (Some err)), c2, w3)
        | (Inr fetched, c2, w3) \<Rightarrow>
       (case createRequest L c2 method path bodyBytes of
          Inl err \<Rightarrow> (Inl err, c2, w3)
        | Inr req \<Rightarrow>
       (case GetCSRFToken L c2 w3 of
          (Inl err, c3, w4) \<Rightarrow> (Inl (Errorf ''failed to get updated CSRF token'' (Some err)), c3, w4)
        | (Inr token, c3, w4) \<Rightarrow>
       (case send w4 (req\<lparr>CSRF := Some token\<rparr>) of
          (TransportError, w5) \<Rightarrow> (Inl (Errorf ''retry request failed'' None), c3, w5)
        | (Reply resp, w5) \<Rightarrow>
       (let attempts = authAttempts c3; user = username c3; pass = password c3 in
        if StatusCode resp = 401 \<and> user \<noteq> [] \<and> pass \<noteq> [] \<and> attempts < MaxAuthRetryAttempts then
          (case Login L (c3\<lparr>authAttempts := authAttempts c3 + 1\<rparr>) w5 ctx user pass of
             (Some err, c4, w6) \<Rightarrow>
               (Inl (AuthenticationError ''failed to re-authenticate'' (Some err)), c4, w6)
           | (None, c4, w6) \<Rightarrow>
          (case createRequest L c4 method path bodyBytes of
             Inl err \<Rightarrow> (Inl err, c4, w6)
           | Inr req \<Rightarrow>
          (case GetCSRFToken L c4 w6 of
             (Inl err, c5, w7) \<Rightarrow>
               (Inl (Errorf ''failed to get CSRF token after re-auth'' (Some err)), c5, w7)
           | (Inr token, c5, w7) \<Rightarrow>
          (case send w7 (req\<lparr>CSRF := Some token\<rparr>) of
             (TransportError, w8) \<Rightarrow> (Inl (Errorf ''final retry request failed'' None), c5, w8)
           | (Reply resp, w8) \<Rightarrow> (Inr resp, c5, w8)))))
        else if StatusCode resp = 401 \<and> attempts \<ge> MaxAuthRetryAttempts then
          (Inl (AuthenticationError ''maximum authentication retry attempts exceeded'' None), c3, w5)
        else (Inr resp, c3, w5))))))
     else (Inr resp, c1, w2)))))"
| "Login L c w0 ctx user pass =
     (let w = w0\<lparr>logins := Suc (logins w0)\<rparr> in
      if user = [] then (Some (ValidationError ''username'' ''username cannot be empty''), c, w)
      else if pass = [] then (Some (ValidationError ''password'' ''password cannot be empty''), c, w)
      else if length pass < 6
        then (Some (ValidationError ''password'' ''password must be at least 6 characters''), c, w)
      else case InitializeSession c w of
        (Some err, w1) \<Rightarrow> (Some (AuthenticationError ''failed to initialize session'' (Some err)), c, w1)
      | (None, w1) \<Rightarrow>
     (case MarshalLogin L \<lparr>Username = user, Password = pass\<rparr> of
        Inl err \<Rightarrow> (Some (AuthenticationError ''failed to prepare login request'' (Some err)), c, w1)
      | Inr jsonData \<Rightarrow>
     (case DoRequest L c w1 ctx ''POST'' EndpointLogin (Some (BytesReader jsonData)) False of
        (Inl err, c1, w2) \<Rightarrow> (Some (AuthenticationError ''login request failed'' (Some err)), c1, w2)
      | (Inr resp, c1, w2) \<Rightarrow>
     if StatusCode resp = 401 \<or> StatusCode resp = 403
       then (Some (AuthenticationError ''invalid username or password'' None), c1, w2)
     else if StatusCode resp \<noteq> 200 \<and> StatusCode resp \<noteq> 201
       then (Some (APIError (StatusCode resp) EndpointLogin
                     (''login failed - '' @
                        (case RespBody resp of
                           Bytes bodyBytes \<Rightarrow>
                             if bodyBytes = [] then ''no additional details provided'' else bodyBytes
                         | ReadError \<Rightarrow> ''no additional details provided'')) None), c1, w2)
     else
       (let c2 = c1\<lparr>username := user, password := pass\<rparr>;
            c3 = c2\<lparr>authAttempts := 0\<rparr> in
        case FetchCSRFToken L c3 w2 of
          (Inl err, c4, w3) \<Rightarrow>
            (Some (AuthenticationError ''failed to fetch CSRF token after login'' (Some err)), c4, w3)
        | (Inr token, c4, w3) \<Rightarrow> (None, c4, w3)))))"
  by pat_completeness auto
termination
  by (relation "measure (\<lambda>x. case x of
          Inl (L, c, w, ctx, method, path, body, needsCSRF) \<Rightarrow> (if needsCSRF then 2 else 0)
        | Inr args \<Rightarrow> Suc 0)") auto

section \<open>Domain operations (SearchProducts, GetAvailableTimeSlots, SelectTimeSlot)\<close>

definition SearchProducts ::
  "lib \<Rightarrow> Client \<Rightarrow> world \<Rightarrow> Context \<Rightarrow> string \<Rightarrow> int \<Rightarrow> int \<Rightarrow> SearchPreferences option
     \<Rightarrow> (error + Product list) \<times> Client \<times> world"
where
  "SearchProducts L c w ctx query page pageSize prefs =
     (if query = [] then (Inl (ValidationError ''query'' ''search query cannot be empty''), c, w)
      else if page < 0 then (Inl (ValidationError ''page'' ''page number cannot be negative''), c, w)
      else if pageSize \<le> 0 \<or> pageSize > 100
        then (Inl (ValidationError ''size'' ''page size must be between 1 and 100''), c, w)
      else
        (let params = [(''q'', query), (''page'', Itoa L page), (''size'', Itoa L pageSize)];
             searchPath = EndpointSearch @ ''?'' @ Encode L params in
         case DoRequest L c w ctx ''GET'' searchPath None False of
           (Inl err, c1, w1) \<Rightarrow>
             (Inl (APIError 0 searchPath ''search request failed'' (Some err)), c1, w1)
         | (Inr resp, c1, w1) \<Rightarrow>
             if StatusCode resp \<noteq> 200
             then (Inl (APIError (StatusCode resp) searchPath ''search failed'' None), c1, w1)
             else (case RespBody resp of
               ReadError \<Rightarrow>
                 (Inl (APIError (StatusCode resp) searchPath ''failed to read search response'' None),
                  c1, w1)
             | Bytes body \<Rightarrow>
                 (case UnmarshalSearch L body of
                    Inl err \<Rightarrow>
                      (Inl (APIError (StatusCode resp) searchPath ''failed to parse search results''
                              (Some err)), c1, w1)
                  | Inr results \<Rightarrow>
                      (let products = results in
                       case prefs of
                         Some pr \<Rightarrow>
                           (let products = filterProducts L products pr;
                                products = sortProducts L products pr
                            in (Inr products, c1, w1))
                       | None \<Rightarrow> (Inr products, c1, w1))))))"

text \<open>
  postalCodeRegex is \<^verbatim>\<open>^\d{5}$|^\d{3}\s?\d{2}$\<close>: five digits, or three digits, one
  white space character of the class \<^verbatim>\<open>\s\<close> (tab, line feed, form feed, carriage return,
  space) and two digits.
\<close>

fun postalCodeRegex :: "string \<Rightarrow> bool" where
  "postalCodeRegex [a, b, c, d, e] = (isDigit a \<and> isDigit b \<and> isDigit c \<and> isDigit d \<and> isDigit e)"
| "postalCodeRegex [a, b, c, sp, d, e] =
     (isDigit a \<and> isDigit b \<and> isDigit c
      \<and> sp \<in> set [CHR 0x09, CHR 0x0A, CHR 0x0C, CHR 0x0D, CHR 0x20]
      \<and> isDigit d \<and> isDigit e)"
| "postalCodeRegex s = False"

definition ValidatePostalCode :: "string \<Rightarrow> error option" where
  "ValidatePostalCode postalCode =
     (if postalCode = [] then Some (ValidationError ''postal_code'' ''cannot be empty'')
      else if \<not> postalCodeRegex postalCode
        then Some (ValidationError ''postal_code'' ''invalid format (expected: 12345 or 123 45)'')
      else None)"

text \<open>Division of int64 in Go truncates towards zero.\<close>

definition quo :: "int \<Rightarrow> int \<Rightarrow> int" where
  "quo a b = sgn a * sgn b * (\<bar>a\<bar> div \<bar>b\<bar>)"

text \<open>The body of the loop of GetAvailableTimeSlots: the TimeSlot made from one entry.\<close>

definition slotOf :: "lib \<Rightarrow> slotEntry \<Rightarrow> TimeSlot" where
  "slotOf L s =
     (let startTimeObj = quo (jsStartTime s) 1000;
          endTimeObj = quo (jsEndTime s) 1000 in
      \<lparr>SlotID = jsCode s,
       Date = FormatDate L startTimeObj,
       StartTime = FormatClock L startTimeObj,
       EndTime = FormatClock L endTimeObj,
       Fee = jsDeliveryCostValue s,
       Available = jsAvailable s,
       EarliestDateTime = tmsEarliestDateTime (jsTmsDeliveryWindowReference s),
       LatestDateTime = tmsLatestDateTime (jsTmsDeliveryWindowReference s),
       RouteID = tmsRouteID (jsTmsDeliveryWindowReference s),
       ResourceKey = tmsResourceKey (jsTmsDeliveryWindowReference s),
       ScheduleKey = tmsScheduleKey (jsTmsDeliveryWindowReference s),
       PrecedingStopId = tmsPrecedingStopId (jsTmsDeliveryWindowReference s),
       StopNumber = tmsStopNumber (jsTmsDeliveryWindowReference s),
       Profitability = tmsProfitability (jsTmsDeliveryWindowReference s)\<rparr>)"

fun slotsLoop :: "lib \<Rightarrow> slotEntry list \<Rightarrow> TimeSlot list \<Rightarrow> TimeSlot list" where
  "slotsLoop L [] slots = slots"
| "slotsLoop L (s # ss) slots = slotsLoop L ss (slots @ [slotOf L s])"

definition GetAvailableTimeSlots ::
  "lib \<Rightarrow> Client \<Rightarrow> world \<Rightarrow> Context \<Rightarrow> string \<Rightarrow> (error + TimeSlot list) \<times> Client \<times> world"
where
  "GetAvailableTimeSlots L c w ctx postalCode =
     (case ValidatePostalCode postalCode of
        Some err \<Rightarrow> (Inl err, c, w)
      | None \<Rightarrow>
        (let path = EndpointSlotHomeDelivery @ ''?postalCode='' @ postalCode @ ''&b2b=false'' in
         case DoRequest L c w ctx ''GET'' path None False of
           (Inl err, c1, w1) \<Rightarrow>
             (Inl (APIError 0 path ''get time slots request failed'' (Some err)), c1, w1)
         | (Inr resp, c1, w1) \<Rightarrow>
             if StatusCode resp \<noteq> 200
             then (Inl (APIError (StatusCode resp) path ''get time slots failed'' None), c1, w1)
             else (case (case RespBody resp of
                           ReadError \<Rightarrow> Inl (Errorf ''read error'' None)
                         | Bytes body \<Rightarrow> DecodeSlots L body) of
               Inl err \<Rightarrow>
                 (Inl (APIError (StatusCode resp) path ''failed to parse time slots response''
                         (Some err)), c1, w1)
             | Inr result \<Rightarrow> (Inr (slotsLoop L (Slots result) []), c1, w1))))"

text \<open>The struct \<open>reqData\<close> that SelectTimeSlot builds from the slot it is given.\<close>

definition selectReqData :: "TimeSlot \<Rightarrow> reqData" where
  "selectReqData slot =
     \<lparr>reqEarliestDateTime = EarliestDateTime slot,
      reqLatestDateTime = LatestDateTime slot,
      reqRouteID = RouteID slot,
      reqResourceKey = ResourceKey slot,
      reqScheduleKey = ScheduleKey slot,
      reqPrecedingStopId = PrecedingStopId slot,
      reqStopNumber = StopNumber slot,
      reqProfitability = Profitability slot\<rparr>"

definition SelectTimeSlot ::
  "lib \<Rightarrow> Client \<Rightarrow> world \<Rightarrow> Context \<Rightarrow> TimeSlot \<Rightarrow> error option \<times> Client \<times> world"
where
  "SelectTimeSlot L c w ctx slot =
     (case MarshalReqData L (selectReqData slot) of
        Inl err \<Rightarrow>
          (Some (APIError 0 EndpointSlotInCart ''failed to marshal time slot request'' (Some err)),
           c, w)
      | Inr jsonData \<Rightarrow>
        (let path = EndpointSlotInCart @ ''/'' @ QueryEscape L (SlotID slot) @ ''?isTmsSlot=true'' in
         case DoRequest L c w ctx ''POST'' path (Some (BytesReader jsonData)) True of
           (Inl err, c1, w1) \<Rightarrow>
             (Some (APIError 0 path ''select time slot request failed'' (Some err)), c1, w1)
         | (Inr resp, c1, w1) \<Rightarrow>
             if StatusCode resp \<noteq> 200 \<and> StatusCode resp \<noteq> 204
             then (Some (APIError (StatusCode resp) path ''select time slot failed'' None), c1, w1)
             else (None, c1, w1)))"

section \<open>What is assumed of the library\<close>

text \<open>
  sort.Slice asks of its less function that it "must describe a transitive ordering": a
  strict weak order. It then leaves a permutation of the slice in which no element is
  less than an element before it; it promises nothing on the order of elements none of
  which is less than the other.
\<close>

definition strictWeakOrder :: "('a \<Rightarrow> 'a \<Rightarrow> bool) \<Rightarrow> bool" where
  "strictWeakOrder lt =
     ((\<forall>a. \<not> lt a a)
      \<and> (\<forall>a b c. lt a b \<and> lt b c \<longrightarrow> lt a c)
      \<and> (\<forall>a b c. \<not> lt a b \<and> \<not> lt b c \<longrightarrow> \<not> lt a c))"

definition SliceSorts :: "lib \<Rightarrow> bool" where
  "SliceSorts L =
     (\<forall>lt xs. mset (Slice L lt xs) = mset xs
        \<and> (strictWeakOrder lt \<longrightarrow> sorted_wrt (\<lambda>a b. \<not> lt b a) (Slice L lt xs)))"

text \<open>
  The sort of the Go releases that compile the client (pattern-defeating quicksort, Go
  1.19 and later; the client needs Go 1.21 for the built-in \<open>max\<close>) swaps nothing in a
  slice that is in order already: up to 12 elements it runs an insertion sort, and on a
  longer slice its first pass finds no element less than the one before it and stops.
\<close>

definition SliceKeepsOrdered :: "lib \<Rightarrow> bool" where
  "SliceKeepsOrdered L =
     (\<forall>lt xs. sorted_wrt (\<lambda>a b. \<not> lt b a) xs \<longrightarrow> Slice L lt xs = xs)"

text \<open>strconv.ParseFloat returns 0 together with a syntax error.\<close>

definition ParseFloatZeroOnError :: "lib \<Rightarrow> bool" where
  "ParseFloatZeroOnError L = (\<forall>s v err. ParseFloat L s = (v, Some err) \<longrightarrow> v = 0)"

section \<open>A fragment of the library, for evaluation\<close>

text \<open>
  To evaluate the client on concrete inputs the parameters are instantiated by functions
  that agree with the Go library on the arguments used in the examples below: decimal
  literals for ParseFloat, ASCII strings for ToLower, the insertion sort that sort.Slice
  runs on a slice of at most 12 elements (insertionSort_func: each element in turn is
  swapped with the one before it as long as it is less), and the three response bodies
  \<open>tokenBody\<close>, \<open>searchBody\<close> and \<open>slotsBody\<close> for the JSON decoders.
\<close>

fun digitsVal :: "string \<Rightarrow> nat \<Rightarrow> nat" where
  "digitsVal [] acc = acc"
| "digitsVal (c # cs) acc = digitsVal cs (acc * 10 + digitVal c)"

definition syntaxError :: error where
  "syntaxError = Errorf ''invalid syntax'' None"

definition parseDecimal :: "string \<Rightarrow> real \<times> error option" where
  "parseDecimal s =
     (let neg = (s \<noteq> [] \<and> hd s = CHR ''-'');
          body = (if s \<noteq> [] \<and> (hd s = CHR ''-'' \<or> hd s = CHR ''+'') then tl s else s);
          ip = takeWhile isDigit body;
          rest = dropWhile isDigit body;
          fp = (if rest \<noteq> [] \<and> hd rest = CHR ''.'' then tl rest else [])
      in if (rest = [] \<or> (hd rest = CHR ''.'' \<and> list_all isDigit fp)) \<and> (ip \<noteq> [] \<or> fp \<noteq> [])
         then ((if neg then - 1 else 1)
                 * (real (digitsVal ip 0) + real (digitsVal fp 0) / 10 ^ length fp), None)
         else (0, Some syntaxError))"

definition asciiLower :: "char \<Rightarrow> char" where
  "asciiLower c =
     (case map_of (zip ''ABCDEFGHIJKLMNOPQRSTUVWXYZ'' ''abcdefghijklmnopqrstuvwxyz'') c of
        Some l \<Rightarrow> l
      | None \<Rightarrow> c)"

text \<open>
  The insertion sort, on the sorted part kept in reverse (its last element first): the
  new element passes every element it is less than.
\<close>

fun insertDown :: "('a \<Rightarrow> 'a \<Rightarrow> bool) \<Rightarrow> 'a \<Rightarrow> 'a list \<Rightarrow> 'a list" where
  "insertDown lt x [] = [x]"
| "insertDown lt x (y # ys) = (if lt x y then y # insertDown lt x ys else x # y # ys)"

definition insertionSort :: "('a \<Rightarrow> 'a \<Rightarrow> bool) \<Rightarrow> 'a list \<Rightarrow> 'a list" where
  "insertionSort lt xs = rev (foldl (\<lambda>done x. insertDown lt x done) [] xs)"

definition quoted :: "string \<Rightarrow> string" where
  "quoted s = CHR 0x22 # s @ [CHR 0x22]"

definition tokenBody :: string where
  "tokenBody = quoted ''tok123''"

definition sampleProduct :: "string \<Rightarrow> string \<Rightarrow> string list \<Rightarrow> Product" where
  "sampleProduct code comparePrice labels =
     \<lparr>Code = code, Name = [], PriceValue = 0, Price = [], ComparePrice = comparePrice,
      ComparePriceUnit = [], DisplayVolume = [], Manufacturer = [], Labels = labels,
      Online = False, OutOfStock = False, SavingsAmount = None, Image = \<lparr>URL = []\<rparr>\<rparr>"

definition searchBody :: string where
  "searchBody =
     ''{'' @ quoted ''results'' @ '':[{'' @ quoted ''code'' @ '':'' @ quoted ''101_ST'' @ '',''
        @ quoted ''comparePrice'' @ '':'' @ quoted ''30,00 kr'' @ ''},{''
        @ quoted ''code'' @ '':'' @ quoted ''102_ST'' @ '','' @ quoted ''comparePrice'' @ '':''
        @ quoted ''10,00 kr'' @ ''}]}''"

definition searchResults :: "Product list" where
  "searchResults = [sampleProduct ''101_ST'' ''30,00 kr'' [], sampleProduct ''102_ST'' ''10,00 kr'' []]"

definition sampleRef :: TmsDeliveryWindowReference where
  "sampleRef =
     \<lparr>tmsEarliestDateTime = 1700000000000, tmsLatestDateTime = 1700007200000, tmsRouteID = 7,
      tmsResourceKey = ''R1'', tmsScheduleKey = ''S1'', tmsPrecedingStopId = 3,
      tmsStopNumber = 4, tmsProfitability = 2\<rparr>"

definition slotsBody :: string where
  "slotsBody =
     ''{'' @ quoted ''slots'' @ '':[{'' @ quoted ''code'' @ '':'' @ quoted ''slot1'' @ '',''
        @ quoted ''startTime'' @ '':1700000000000,'' @ quoted ''endTime'' @ '':1700007200000,''
        @ quoted ''tmsDeliveryWindowReference'' @ '':{''
        @ quoted ''earliestDateTime'' @ '':1700000000000,''
        @ quoted ''latestDateTime'' @ '':1700007200000,''
        @ quoted ''routeID'' @ '':7,''
        @ quoted ''resourceKey'' @ '':'' @ quoted ''R1'' @ '',''
        @ quoted ''scheduleKey'' @ '':'' @ quoted ''S1'' @ '',''
        @ quoted ''precedingStopId'' @ '':3,''
        @ quoted ''stopNumber'' @ '':4,''
        @ quoted ''profitability'' @ '':2}}]}''"

definition slotsDecoded :: slotsResult where
  "slotsDecoded =
     \<lparr>Isocode = [],
      Slots = [\<lparr>jsCode = ''slot1'', jsStartTime = 1700000000000, jsEndTime = 1700007200000,
                jsFormattedTime = [], jsDeliveryCostValue = 0, jsAvailable = False,
                jsTmsDeliveryWindowReference = sampleRef\<rparr>]\<rparr>"

definition sampleLib :: lib where
  "sampleLib =
     \<lparr>ParseFloat = parseDecimal,
      ToLower = map asciiLower,
      Slice = insertionSort,
      NewRequest = (\<lambda>method url. None),
      UnmarshalAny = (\<lambda>data. if data = quoted ''12.50'' then Inr (AString ''12.50'') else Inl syntaxError),
      UnmarshalString = (\<lambda>data. if data = tokenBody then Inr ''tok123'' else Inl syntaxError),
      UnmarshalToken = (\<lambda>data. Inl syntaxError),
      UnmarshalSearch = (\<lambda>data. if data = searchBody then Inr searchResults else Inl syntaxError),
      DecodeSlots = (\<lambda>data. if data = slotsBody then Inr slotsDecoded else Inl syntaxError),
      MarshalLogin = (\<lambda>r. Inr (''{'' @ quoted ''username'' @ '':'' @ quoted (Username r) @ '',''
                                  @ quoted ''password'' @ '':'' @ quoted (Password r) @ ''}'')),
      MarshalReqData = (\<lambda>r. Inr (''{'' @ quoted ''routeID'' @ '':7}'')),
      Encode = (\<lambda>params. concat (map (\<lambda>(k, v). k @ ''='' @ v @ ''&'') params)),
      QueryEscape = (\<lambda>s. s),
      Itoa = (\<lambda>n. if n = 0 then ''0'' else if n = 10 then ''10'' else ''1''),
      FormatDate = (\<lambda>sec. ''2023-11-14''),
      FormatClock = (\<lambda>sec. if sec = 1700000000 then ''22:13'' else ''00:13'')\<rparr>"

text \<open>
  A client with credentials and no token yet, and a server that hands out the token,
  accepts the login and answers every other request with 401 Unauthorized.
\<close>

definition sampleClient :: Client where
  "sampleClient = NewClient ''https://shop.example'' ''user@example.com'' ''secret1''"

definition rejecting :: "Request list \<Rightarrow> reply" where
  "rejecting h =
     (if Url (last h) = ''https://shop.example'' @ EndpointCSRFToken
        then Reply (Response 200 (Bytes tokenBody))
      else if Url (last h) = ''https://shop.example''
        then Reply (Response 200 (Bytes []))
      else if Url (last h) = ''https://shop.example'' @ EndpointLogin
        then Reply (Response 200 (Bytes []))
      else Reply (Response 401 (Bytes [])))"

text \<open>A server that answers the search and the slots listing, and 401 elsewhere.\<close>

definition serving :: "Request list \<Rightarrow> reply" where
  "serving h =
     (if take 27 (Url (last h)) = ''https://shop.example/search''
        then Reply (Response 200 (Bytes searchBody))
      else if take (20 + length EndpointSlotHomeDelivery) (Url (last h))
                = ''https://shop.example'' @ EndpointSlotHomeDelivery
        then Reply (Response 200 (Bytes slotsBody))
      else rejecting h)"

definition world0 :: "(Request list \<Rightarrow> reply) \<Rightarrow> world" where
  "world0 srv = \<lparr>server = srv, sent = [], logins = 0\<rparr>"

section \<open>Theorems\<close>

text \<open>
  C9. ValidateTimeSlot("15:00-17:00") returns the start "15:00" and the end "17:00" with
  no error; ValidateTimeSlot("17:00-15:00") returns a ValidationError because the end
  is not after the start; ValidateTimeSlot("9:00-10:00") returns a ValidationError
  because the time format rejects the hour that is not zero-padded.
\<close>

theorem ValidateTimeSlot_examples:
  "ValidateTimeSlot ''15:00-17:00'' = Inr (''15:00'', ''17:00'')
   \<and> ValidateTimeSlot ''17:00-15:00''
       = Inl (ValidationError ''time_slot'' ''end time must be after start time'')
   \<and> \<not> timeFormatRegex ''9:00''
   \<and> ValidateTimeSlot ''9:00-10:00''
       = Inl (ValidationError ''time_slot'' ''invalid start time: 9:00'')"
  by (simp add: ValidateTimeSlot_def TrimSpace_def isSpace_def isDigit_def
        parsedInstant_def digitVal_def zeroTime_def)

subsection \<open>Loops as list functions\<close>


lemma found_iff: "found r ls = (\<exists>l\<in>set ls. Contains l r)"
  by (induction ls) auto

lemma hasAllRequired_iff: "hasAllRequired rs ls = (\<forall>r\<in>set rs. found r ls)"
  by (induction rs) auto

lemma filterLoop_eq:
  "filterLoop L prefs req ps acc =
     acc @ filter (\<lambda>p. \<not> (MaxPricePerUnit prefs > 0
                          \<and> parseComparePriceToFloat L (ComparePrice p) > MaxPricePerUnit prefs)
                      \<and> hasAllRequired req (map (ToLower L) (Labels p))) ps"
  by (induction ps arbitrary: acc) (auto simp: hasAllRequired_iff)



lemma mset_insertDown: "mset (insertDown lt x ys) = add_mset x (mset ys)"
  by (induction ys) auto

lemma mset_foldl_insertDown:
  "mset (foldl (\<lambda>done x. insertDown lt x done) acc xs) = mset acc + mset xs"
  by (induction xs arbitrary: acc) (auto simp: mset_insertDown)

lemma mset_insertionSort: "mset (insertionSort lt xs) = mset xs"
  by (simp add: insertionSort_def mset_foldl_insertDown)

lemma set_insertDown: "set (insertDown lt x ys) = insert x (set ys)"
  by (induction ys) auto

lemma sorted_insertDown:
  assumes "strictWeakOrder lt" "sorted_wrt (\<lambda>a b. \<not> lt a b) ys"
  shows "sorted_wrt (\<lambda>a b. \<not> lt a b) (insertDown lt x ys)"
  using assms(2)
proof (induction ys)
  case Nil then show ?case by simp
next
  case (Cons y ys)
  have asym: "\<And>a b. lt a b \<Longrightarrow> \<not> lt b a"
    using assms(1) unfolding strictWeakOrder_def by blast
  have ntrans: "\<And>a b c. \<not> lt a b \<Longrightarrow> \<not> lt b c \<Longrightarrow> \<not> lt a c"
    using assms(1) unfolding strictWeakOrder_def by blast
  show ?case
  proof (cases "lt x y")
    case True
    with Cons asym show ?thesis by (auto simp: set_insertDown)
  next
    case False
    with Cons ntrans show ?thesis by auto
  qed
qed

lemma sorted_foldl_insertDown:
  assumes "strictWeakOrder lt" "sorted_wrt (\<lambda>a b. \<not> lt a b) acc"
  shows "sorted_wrt (\<lambda>a b. \<not> lt a b) (foldl (\<lambda>done x. insertDown lt x done) acc xs)"
  using assms(2) by (induction xs arbitrary: acc) (auto intro: sorted_insertDown[OF assms(1)])

lemma sorted_insertionSort:
  "strictWeakOrder lt \<Longrightarrow> sorted_wrt (\<lambda>a b. \<not> lt b a) (insertionSort lt xs)"
  using sorted_foldl_insertDown[of lt "[]" xs]
  by (simp add: insertionSort_def sorted_wrt_rev)

lemma foldl_insertDown_ordered:
  "sorted_wrt (\<lambda>a b. \<not> lt b a) xs \<Longrightarrow> \<forall>x\<in>set xs. \<forall>y\<in>set acc. \<not> lt x y
   \<Longrightarrow> foldl (\<lambda>done x. insertDown lt x done) acc xs = rev xs @ acc"
proof (induction xs arbitrary: acc)
  case Nil then show ?case by simp
next
  case (Cons x xs)
  have "insertDown lt x acc = x # acc" using Cons.prems(2) by (cases acc) auto
  moreover have "\<forall>z\<in>set xs. \<forall>y\<in>set (x # acc). \<not> lt z y" using Cons.prems by auto
  ultimately show ?case using Cons.IH[of "x # acc"] Cons.prems(1) by simp
qed

lemma insertionSort_ordered:
  "sorted_wrt (\<lambda>a b. \<not> lt b a) xs \<Longrightarrow> insertionSort lt xs = xs"
  by (simp add: insertionSort_def foldl_insertDown_ordered)

lemma sampleLib_SliceSorts: "SliceSorts sampleLib"
  by (simp add: SliceSorts_def sampleLib_def mset_insertionSort sorted_insertionSort)

lemma sampleLib_SliceKeepsOrdered: "SliceKeepsOrdered sampleLib"
  by (simp add: SliceKeepsOrdered_def sampleLib_def insertionSort_ordered)

lemma sampleLib_ParseFloatZeroOnError: "ParseFloatZeroOnError sampleLib"
  by (auto simp: ParseFloatZeroOnError_def sampleLib_def parseDecimal_def Let_def split: if_splits)

lemma strictWeakOrder_key:
  fixes key :: "'a \<Rightarrow> real"
  shows "strictWeakOrder (\<lambda>a b. key a < key b)"
  by (auto simp: strictWeakOrder_def)

lemma sortLess_cheapest:
  "SortBy prefs = ''cheapest'' \<Longrightarrow>
   sortLess L prefs = (\<lambda>a b. parseComparePriceToFloat L (ComparePrice a)
                               < parseComparePriceToFloat L (ComparePrice b))"
  by (intro ext) (simp add: sortLess_def)


lemma sortLess_default:
  "SortBy prefs \<noteq> ''cheapest'' \<Longrightarrow> SortBy prefs \<noteq> ''best_value'' \<Longrightarrow>
   SortBy prefs \<noteq> ''highest_quality'' \<Longrightarrow> sortLess L prefs = (\<lambda>a b. False)"
  by (intro ext) (simp add: sortLess_def)

lemma Slice_by_key:
  fixes key :: "Product \<Rightarrow> real"
  assumes "SliceSorts L"
  shows "mset (Slice L (\<lambda>a b. key a < key b) xs) = mset xs
         \<and> sorted_wrt (\<lambda>a b. key a \<le> key b) (Slice L (\<lambda>a b. key a < key b) xs)"
proof -
  have "sorted_wrt (\<lambda>a b. \<not> key b < key a) (Slice L (\<lambda>a b. key a < key b) xs)"
    using assms strictWeakOrder_key[of key] unfolding SliceSorts_def by blast
  then have "sorted_wrt (\<lambda>a b. key a \<le> key b) (Slice L (\<lambda>a b. key a < key b) xs)"
    by (simp add: not_less)
  then show ?thesis using assms unfolding SliceSorts_def by blast
qed

text \<open>The definitions unfolded to evaluate the ranking engine on the library fragment.\<close>

lemmas evals = parseComparePriceToFloat_def sampleLib_def parseDecimal_def TrimSuffix_def
  HasSuffix_def ReplaceAll_def isDigit_def digitVal_def sampleProduct_def asciiLower_def
  qualityLabels_def calculateValueScore_def Let_def

subsection \<open>The value score\<close>




subsection \<open>The filter stage\<close>

text \<open>
  C3, as amended. With a ceiling MaxPricePerUnit above 0, the compare-price is parsed
  after the suffix " kr" is stripped and every comma replaced by a point, and the filter
  stage keeps exactly the products whose parsed price is not above the ceiling and that
  carry every required label; with no required labels it drops exactly the products
  whose parsed price is above the ceiling. When ParseFloat returns 0 with its error, a
  product whose compare-price does not parse counts as price 0, and is kept when no
  labels are required.
\<close>

theorem filterProducts_ceiling:
  "0 < MaxPricePerUnit prefs \<Longrightarrow>
   parseComparePriceToFloat L s
     = fst (ParseFloat L (ReplaceAll (TrimSuffix s '' kr'') (CHR '','') (CHR ''.'')))
   \<and> filterProducts L products prefs
       = filter (\<lambda>p. \<not> parseComparePriceToFloat L (ComparePrice p) > MaxPricePerUnit prefs
                      \<and> (\<forall>r\<in>set (RequiredLabels prefs). \<exists>l\<in>set (Labels p).
                            Contains (ToLower L l) (ToLower L r))) products
   \<and> (RequiredLabels prefs = [] \<longrightarrow>
        filterProducts L products prefs
          = filter (\<lambda>p. \<not> parseComparePriceToFloat L (ComparePrice p) > MaxPricePerUnit prefs)
              products)
   \<and> (ParseFloatZeroOnError L
        \<and> snd (ParseFloat L (ReplaceAll (TrimSuffix (ComparePrice p) '' kr'') (CHR '','') (CHR ''.'')))
            \<noteq> None \<longrightarrow>
        parseComparePriceToFloat L (ComparePrice p) = 0
        \<and> (RequiredLabels prefs = [] \<and> p \<in> set products \<longrightarrow>
             p \<in> set (filterProducts L products prefs)))"
proof -
  assume pos: "0 < MaxPricePerUnit prefs"
  have parse: "\<And>s. parseComparePriceToFloat L s
     = fst (ParseFloat L (ReplaceAll (TrimSuffix s '' kr'') (CHR '','') (CHR ''.'')))"
    by (simp add: parseComparePriceToFloat_def Let_def split: prod.split)
  have all: "filterProducts L products prefs
       = filter (\<lambda>p. \<not> parseComparePriceToFloat L (ComparePrice p) > MaxPricePerUnit prefs
                      \<and> (\<forall>r\<in>set (RequiredLabels prefs). \<exists>l\<in>set (Labels p).
                            Contains (ToLower L l) (ToLower L r))) products"
    using pos by (simp add: filterProducts_def filterLoop_eq hasAllRequired_iff found_iff)
  have none: "RequiredLabels prefs = [] \<Longrightarrow>
        filterProducts L products prefs
          = filter (\<lambda>p. \<not> parseComparePriceToFloat L (ComparePrice p) > MaxPricePerUnit prefs)
              products"
    by (simp add: all)
  have zero: "parseComparePriceToFloat L (ComparePrice p) = 0"
    if z: "ParseFloatZeroOnError L"
       and e: "snd (ParseFloat L (ReplaceAll (TrimSuffix (ComparePrice p) '' kr'') (CHR '','') (CHR ''.'')))
            \<noteq> None"
  proof -
    obtain v e where "ParseFloat L (ReplaceAll (TrimSuffix (ComparePrice p) '' kr'') (CHR '','') (CHR ''.''))
        = (v, Some e)"
      using e by (cases "ParseFloat L (ReplaceAll (TrimSuffix (ComparePrice p) '' kr'') (CHR '','') (CHR ''.''))") auto
    then show ?thesis using z unfolding ParseFloatZeroOnError_def parse by fastforce
  qed
  show ?thesis
    using parse all none zero pos by (auto simp del: not_less)
qed

text \<open>
  With the ceiling 50 and no required labels, of the prices 51, "n/a" and 50 the first is
  dropped and the other two are kept.
\<close>

theorem filterProducts_ceiling_witness:
  "filterProducts sampleLib
     [sampleProduct ''101_ST'' ''51,00 kr'' [], sampleProduct ''102_ST'' ''n/a'' [],
      sampleProduct ''103_ST'' ''50,00 kr'' []]
     \<lparr>PriceSensitivity = [], MaxPricePerUnit = 50, RequiredLabels = [], PreferredLabels = [],
      SortBy = []\<rparr>
   = [sampleProduct ''102_ST'' ''n/a'' [], sampleProduct ''103_ST'' ''50,00 kr'' []]"
  using filterProducts_ceiling[of
     "\<lparr>PriceSensitivity = [], MaxPricePerUnit = 50, RequiredLabels = [], PreferredLabels = [],
      SortBy = []\<rparr>" sampleLib "[]"
     "[sampleProduct ''101_ST'' ''51,00 kr'' [], sampleProduct ''102_ST'' ''n/a'' [],
      sampleProduct ''103_ST'' ''50,00 kr'' []]" "sampleProduct ''102_ST'' ''n/a'' []"]
  by (simp add: evals)

text \<open>
  C3 as stated fails when labels are required: with the ceiling 50 and the required
  label "krav", a product of price 10 without labels is dropped, and so is one whose
  price does not parse.
\<close>

theorem filterProducts_ceiling_counterexample:
  "\<not> parseComparePriceToFloat sampleLib (ComparePrice (sampleProduct ''101_ST'' ''10,00 kr'' [])) > 50
   \<and> snd (ParseFloat sampleLib ''n/a'') \<noteq> None
   \<and> filterProducts sampleLib
       [sampleProduct ''101_ST'' ''10,00 kr'' [], sampleProduct ''102_ST'' ''n/a'' []]
       \<lparr>PriceSensitivity = [], MaxPricePerUnit = 50, RequiredLabels = [''krav''],
        PreferredLabels = [], SortBy = []\<rparr>
     = []"
  by (simp add: evals filterProducts_def syntaxError_def)

subsection \<open>Sorting by price\<close>

text \<open>
  C5. Given a sort that meets the contract of sort.Slice, sorting with the mode
  cheapest gives a permutation of the products in ascending order of the parsed unit
  compare-price; products with the unit prices 30, 10 and 20 come out in the order 10,
  20, 30.
\<close>

theorem sortProducts_cheapest:
  "SliceSorts L \<Longrightarrow> SortBy prefs = ''cheapest'' \<Longrightarrow>
   mset (sortProducts L products prefs) = mset products
   \<and> sorted_wrt (\<lambda>a b. parseComparePriceToFloat L (ComparePrice a)
                          \<le> parseComparePriceToFloat L (ComparePrice b))
        (sortProducts L products prefs)
   \<and> (parseComparePriceToFloat L (ComparePrice p30) = 30
        \<and> parseComparePriceToFloat L (ComparePrice p10) = 10
        \<and> parseComparePriceToFloat L (ComparePrice p20) = 20 \<longrightarrow>
        sortProducts L [p30, p10, p20] prefs = [p10, p20, p30])"
proof -
  assume S: "SliceSorts L" and m: "SortBy prefs = ''cheapest''"
  define key where "key = (\<lambda>a::Product. parseComparePriceToFloat L (ComparePrice a))"
  have s: "\<And>xs. sortProducts L xs prefs = Slice L (\<lambda>a b. key a < key b) xs"
    using m by (simp add: sortProducts_def sortLess_cheapest key_def)
  have gen: "\<And>xs. mset (sortProducts L xs prefs) = mset xs
               \<and> sorted_wrt (\<lambda>a b. key a \<le> key b) (sortProducts L xs prefs)"
    using Slice_by_key[OF S, of key] by (simp add: s)
  have ex: "sortProducts L [p30, p10, p20] prefs = [p10, p20, p30]"
    if k: "key p30 = 30" "key p10 = 10" "key p20 = 20"
  proof -
    let ?ys = "sortProducts L [p30, p10, p20] prefs"
    have ms: "mset ?ys = mset [p30, p10, p20]" and so: "sorted_wrt (\<lambda>a b. key a \<le> key b) ?ys"
      using gen by blast+
    have "length ?ys = 3" using ms mset_eq_length by fastforce
    then obtain a b c where ys: "?ys = [a, b, c]"
      by (metis (no_types, lifting) length_0_conv length_Suc_conv numeral_3_eq_3)
    have le: "key a \<le> key b" "key b \<le> key c" "key a \<le> key c" using so ys by auto
    have ne: "p30 \<noteq> p10" "p10 \<noteq> p20" "p30 \<noteq> p20" using k by auto
    have "set ?ys = {p30, p10, p20}" using ms mset_eq_setD by fastforce
    then have st: "{a, b, c} = {p30, p10, p20}" using ys by simp
    have "distinct ?ys" using ms ne by (metis distinct.simps(2) distinct_singleton empty_iff empty_set mset_eq_imp_distinct_iff set_ConsD)
    then have d: "a \<noteq> b" "b \<noteq> c" "a \<noteq> c" using ys by auto
    have "a \<in> {p30, p10, p20}" "b \<in> {p30, p10, p20}" "c \<in> {p30, p10, p20}"
      using st by blast+
    then have "a = p10 \<and> b = p20 \<and> c = p30"
      using le d k by auto
    then show ?thesis using ys by simp
  qed
  show ?thesis using gen ex unfolding key_def by blast
qed

text \<open>The prices "30,00 kr", "10,00 kr" and "20,00 kr" with the insertion sort.\<close>

theorem sortProducts_cheapest_witness:
  "sortProducts sampleLib
     [sampleProduct ''101_ST'' ''30,00 kr'' [], sampleProduct ''102_ST'' ''10,00 kr'' [],
      sampleProduct ''103_ST'' ''20,00 kr'' []]
     \<lparr>PriceSensitivity = [], MaxPricePerUnit = 0, RequiredLabels = [], PreferredLabels = [],
      SortBy = ''cheapest''\<rparr>
   = [sampleProduct ''102_ST'' ''10,00 kr'' [], sampleProduct ''103_ST'' ''20,00 kr'' [],
      sampleProduct ''101_ST'' ''30,00 kr'' []]"
  using sortProducts_cheapest[OF sampleLib_SliceSorts, of
     "\<lparr>PriceSensitivity = [], MaxPricePerUnit = 0, RequiredLabels = [], PreferredLabels = [],
      SortBy = ''cheapest''\<rparr>" "[]"
     "sampleProduct ''101_ST'' ''30,00 kr'' []" "sampleProduct ''102_ST'' ''10,00 kr'' []"
     "sampleProduct ''103_ST'' ''20,00 kr'' []"]
  by (simp add: evals)

subsection \<open>Cart prices\<close>

text \<open>
  C7. parsePrice returns a number as it is, the number ParseFloat reads from a
  non-empty string, and for an object with the field \<open>value\<close> what it returns for that
  field; it returns 0 for nil (a missing field), the empty string, a string ParseFloat
  fails on, an object without the field \<open>value\<close>, a bool and an array.
  FlexiblePrice.UnmarshalJSON stores the decoded value.
\<close>

theorem parsePrice_coercion:
  "parsePrice L (AFloat64 x) = x
   \<and> (s \<noteq> [] \<and> ParseFloat L s = (x, None) \<longrightarrow> parsePrice L (AString s) = x)
   \<and> (map_of m ''value'' = Some v \<longrightarrow> parsePrice L (AMap m) = parsePrice L v)
   \<and> parsePrice L ANil = 0
   \<and> parsePrice L (AString []) = 0
   \<and> (ParseFloat L s = (y, Some err) \<longrightarrow> parsePrice L (AString s) = 0)
   \<and> (map_of m ''value'' = None \<longrightarrow> parsePrice L (AMap m) = 0)
   \<and> parsePrice L (ABool b) = 0
   \<and> parsePrice L (ASlice vs) = 0
   \<and> (UnmarshalJSON L fp data = Inr fp' \<longrightarrow> UnmarshalAny L data = Inr (Value fp'))"
proof (intro conjI impI)
  show "UnmarshalJSON L fp data = Inr fp' \<Longrightarrow> UnmarshalAny L data = Inr (Value fp')"
    by (cases "UnmarshalAny L data") (auto simp: UnmarshalJSON_def Value_def)
qed simp_all

text \<open>An object with the value "12.50", a string with a decimal comma, an object without value.\<close>

theorem parsePrice_coercion_witness:
  "parsePrice sampleLib (AMap [(''currency'', AString ''SEK''), (''value'', AString ''12.50'')]) = 12.5
   \<and> parsePrice sampleLib (AString ''12,50'') = 0
   \<and> parsePrice sampleLib (AMap [(''amount'', AFloat64 3)]) = 0"
proof -
  let ?m = "[(''currency'', AString ''SEK''), (''value'', AString ''12.50'')]"
  note t = parsePrice_coercion[of sampleLib "12.5" "''12.50''" ?m "AString ''12.50''" 0 syntaxError]
  note u = parsePrice_coercion[of sampleLib "12.5" "''12,50''" "[(''amount'', AFloat64 3)]" ANil 0 syntaxError]
  have p1: "ParseFloat sampleLib ''12.50'' = (12.5, None)"
    by (simp add: sampleLib_def parseDecimal_def isDigit_def digitVal_def)
  have p2: "ParseFloat sampleLib ''12,50'' = (0, Some syntaxError)"
    by (simp add: sampleLib_def parseDecimal_def isDigit_def digitVal_def)
  have "parsePrice sampleLib (AString ''12.50'') = 12.5" using t p1 by blast
  moreover have "parsePrice sampleLib (AMap ?m) = parsePrice sampleLib (AString ''12.50'')"
    using t by simp
  moreover have "parsePrice sampleLib (AString ''12,50'') = 0" using u p2 by blast
  moreover have "parsePrice sampleLib (AMap [(''amount'', AFloat64 3)]) = 0" using u by simp
  ultimately show ?thesis by simp
qed

subsection \<open>SearchProducts\<close>

text \<open>With \<open>needsCSRF\<close> false DoRequest sends the request once and returns the answer.\<close>

lemma DoRequest_plain:
  "DoRequest L c w ctx method path body False =
     (if ctxDone ctx w then (Inl ContextError, c, w)
      else case readAll body of
        Inl err \<Rightarrow> (Inl err, c, w)
      | Inr bodyBytes \<Rightarrow>
     (case createRequest L c method path bodyBytes of
        Inl err \<Rightarrow> (Inl err, c, w)
      | Inr req \<Rightarrow>
     (case send w req of
        (TransportError, w2) \<Rightarrow> (Inl (Errorf ''request failed'' None), c, w2)
      | (Reply resp, w2) \<Rightarrow> (Inr resp, c, w2))))"
  by (subst DoRequest.simps) (simp split: sum.split prod.split reply.split)

text \<open>
  C10. SearchProducts with an empty query, a negative page or a page size outside 1 to
  100 returns the ValidationError of the first offending field (query, page, size) and
  leaves the client and the world as they were: no request is sent. With arguments
  inside these bounds its only errors are APIErrors.
\<close>

theorem SearchProducts_validation:
  "((query = [] \<or> page < 0 \<or> pageSize < 1 \<or> pageSize > 100) \<longrightarrow>
      SearchProducts L c w ctx query page pageSize prefs
        = (Inl (ValidationError
                 (if query = [] then ''query'' else if page < 0 then ''page'' else ''size'')
                 (if query = [] then ''search query cannot be empty''
                  else if page < 0 then ''page number cannot be negative''
                  else ''page size must be between 1 and 100'')), c, w))
   \<and> (query \<noteq> [] \<and> 0 \<le> page \<and> 1 \<le> pageSize \<and> pageSize \<le> 100 \<longrightarrow>
        (\<forall>err. fst (SearchProducts L c w ctx query page pageSize prefs) = Inl err
                 \<longrightarrow> IsAPIError err))"
proof (intro conjI impI allI)
  assume "query = [] \<or> page < 0 \<or> pageSize < 1 \<or> pageSize > 100"
  then show "SearchProducts L c w ctx query page pageSize prefs
        = (Inl (ValidationError
                 (if query = [] then ''query'' else if page < 0 then ''page'' else ''size'')
                 (if query = [] then ''search query cannot be empty''
                  else if page < 0 then ''page number cannot be negative''
                  else ''page size must be between 1 and 100'')), c, w)"
    by (auto simp: SearchProducts_def)
next
  fix err
  assume ok: "query \<noteq> [] \<and> 0 \<le> page \<and> 1 \<le> pageSize \<and> pageSize \<le> 100"
    and e: "fst (SearchProducts L c w ctx query page pageSize prefs) = Inl err"
  show "IsAPIError err"
    using ok e
    by (auto simp: SearchProducts_def Let_def
        split: prod.splits sum.splits if_splits content.splits option.splits)
qed

text \<open>An empty query, the page -1 and the page size 101.\<close>

theorem SearchProducts_validation_witness:
  "SearchProducts sampleLib sampleClient (world0 serving) None [] 0 10 None
     = (Inl (ValidationError ''query'' ''search query cannot be empty''), sampleClient, world0 serving)
   \<and> SearchProducts sampleLib sampleClient (world0 serving) None ''milk'' (- 1) 10 None
     = (Inl (ValidationError ''page'' ''page number cannot be negative''), sampleClient, world0 serving)
   \<and> SearchProducts sampleLib sampleClient (world0 serving) None ''milk'' 0 101 None
     = (Inl (ValidationError ''size'' ''page size must be between 1 and 100''), sampleClient, world0 serving)"
  using SearchProducts_validation[of "[]" 0 10 sampleLib sampleClient "world0 serving" None None]
    SearchProducts_validation[of "''milk''" "- 1" 10 sampleLib sampleClient "world0 serving" None None]
    SearchProducts_validation[of "''milk''" 0 101 sampleLib sampleClient "world0 serving" None None]
  by simp

text \<open>
  C4. When SearchProducts is called without preferences and returns products, they are
  the list decoded from the body of the response, as it is. With a sort mode other than
  cheapest, best_value and highest_quality the less function is false everywhere, and
  the sort stage returns its argument, given that sort.Slice swaps nothing in a slice
  that is in order.
\<close>

theorem SearchProducts_without_preferences:
  "(SearchProducts L c w ctx query page pageSize None = (Inr products, c', w') \<longrightarrow>
      (\<exists>resp body.
          DoRequest L c w ctx ''GET''
            (EndpointSearch @ ''?'' @
               Encode L [(''q'', query), (''page'', Itoa L page), (''size'', Itoa L pageSize)])
            None False = (Inr resp, c', w')
          \<and> RespBody resp = Bytes body \<and> UnmarshalSearch L body = Inr products))
   \<and> (SliceKeepsOrdered L \<and> SortBy prefs \<noteq> ''cheapest'' \<and> SortBy prefs \<noteq> ''best_value''
        \<and> SortBy prefs \<noteq> ''highest_quality'' \<longrightarrow>
        sortProducts L products prefs = products)"
proof (intro conjI impI)
  assume "SearchProducts L c w ctx query page pageSize None = (Inr products, c', w')"
  then show "\<exists>resp body.
          DoRequest L c w ctx ''GET''
            (EndpointSearch @ ''?'' @
               Encode L [(''q'', query), (''page'', Itoa L page), (''size'', Itoa L pageSize)])
            None False = (Inr resp, c', w')
          \<and> RespBody resp = Bytes body \<and> UnmarshalSearch L body = Inr products"
    by (auto simp: SearchProducts_def Let_def
        split: prod.splits sum.splits if_splits content.splits)
next
  assume a: "SliceKeepsOrdered L \<and> SortBy prefs \<noteq> ''cheapest'' \<and> SortBy prefs \<noteq> ''best_value''
        \<and> SortBy prefs \<noteq> ''highest_quality''"
  have "sortLess L prefs = (\<lambda>a b. False)"
    using a by (intro ext) (simp add: sortLess_def)
  moreover have "sorted_wrt (\<lambda>a b. \<not> False) products" by (induction products) auto
  ultimately show "sortProducts L products prefs = products"
    using a unfolding SliceKeepsOrdered_def sortProducts_def by auto
qed

text \<open>A search on the sample server, and the sort stage with the mode "newest".\<close>

lemma SearchProducts_sample: "SearchProducts sampleLib sampleClient (world0 serving) None ''milk'' 0 10 None
     = (Inr searchResults, sampleClient,
        \<lparr>server = serving,
         sent = [\<lparr>Method = ''GET'', Url = ''https://shop.example/search?q=milk&page=0&size=10&'',
                   Body = [], CSRF = None\<rparr>],
         logins = 0\<rparr>)"
  by (simp add: SearchProducts_def DoRequest_plain sampleLib_def sampleClient_def world0_def
       NewClient_def ctxDone_def readAll_def createRequest_def send_def serving_def
       EndpointSearch_def Let_def)

theorem SearchProducts_without_preferences_witness:
  "fst (SearchProducts sampleLib sampleClient (world0 serving) None ''milk'' 0 10 None)
     = Inr searchResults
   \<and> sortProducts sampleLib searchResults
       \<lparr>PriceSensitivity = [], MaxPricePerUnit = 0, RequiredLabels = [], PreferredLabels = [],
        SortBy = ''newest''\<rparr>
     = searchResults"
proof -
  have "sortProducts sampleLib searchResults
       \<lparr>PriceSensitivity = [], MaxPricePerUnit = 0, RequiredLabels = [], PreferredLabels = [],
        SortBy = ''newest''\<rparr>
     = searchResults"
    using SearchProducts_without_preferences[of sampleLib sampleClient "world0 serving" None
        "''milk''" 0 10 searchResults sampleClient "world0 serving"
        "\<lparr>PriceSensitivity = [], MaxPricePerUnit = 0, RequiredLabels = [], PreferredLabels = [],
          SortBy = ''newest''\<rparr>"]
      sampleLib_SliceKeepsOrdered
    by simp
  then show ?thesis by (simp add: SearchProducts_sample)
qed

end
